theory Spec2Isabelle
  imports Main
begin

text \<open>
  The client-side session state machine of the banana puzzle game: the router of the
  top-level \<^verbatim>\<open>Index\<close> component and the round loop of \<^verbatim>\<open>GamePage\<close>. Component state is a
  record, every handler a function from state to state, and what a handler sends out
  (notices, requests, timers) is appended to a trace. JavaScript numbers are integers here:
  the counters only ever hold integers. An \<^verbatim>\<open>async\<close> handler is cut at its \<^verbatim>\<open>await\<close>: the
  part before it is one function, what the awaited call yields is an argument of the next.
\<close>

section \<open>Persisted storage and JavaScript truthiness\<close>

text \<open>
  The browser's \<^verbatim>\<open>localStorage\<close> is a map from keys to strings; \<^verbatim>\<open>getItem\<close> yields
  \<^verbatim>\<open>null\<close> (here \<open>None\<close>) for a key that is not stored. The source tests what it reads with
  \<^verbatim>\<open>if (x)\<close>, \<^verbatim>\<open>!x\<close> and \<^verbatim>\<open>a || b\<close>: a string is truthy when it is present and not
  empty, a number when it is present and not zero.
\<close>

type_synonym storage = "string \<rightharpoonup> string"

fun truthy :: "string option \<Rightarrow> bool" where
  "truthy None = False"
| "truthy (Some s) = (s \<noteq> [])"

fun or_num :: "int option \<Rightarrow> int \<Rightarrow> int" where
  "or_num None d = d"
| "or_num (Some n) d = (if n = 0 then d else n)"

fun or_str :: "string option \<Rightarrow> string \<Rightarrow> string" where
  "or_str None d = d"
| "or_str (Some s) d = (if s = [] then d else s)"

text \<open>
  Modelled from the spec: \<^verbatim>\<open>clearStoredSession\<close> is imported from \<^verbatim>\<open>@/lib/auth\<close>, which is
  not among the sources. The specification says that logout "clears persisted credentials"
  (the access and refresh bearer pair) and lists "removing the persisted username and
  credential keys" as the router's storage side effect; the router's logout path touches
  storage only through this helper, so the helper removes the three keys.
\<close>

definition clearStoredSession :: "storage \<Rightarrow> storage" where
  "clearStoredSession st =
     st(''accessToken'' := None, ''refreshToken'' := None, ''banana-user'' := None)"

section \<open>Session router (the Index component)\<close>

datatype ViewState = Landing | Auth | Playing | Leaderboard | Contact | Ratings | Reviews

datatype AuthTab = Login | Register

record Index =
  view :: ViewState
  authTab :: AuthTab
  username :: string
  finalScore :: int

definition Index_init :: Index where
  "Index_init = \<lparr>view = Landing, authTab = Login, username = [], finalScore = 0\<rparr>"

text \<open>The effect that runs once, on first mount, and reads the three persisted keys.\<close>

definition startup :: "storage \<Rightarrow> Index \<Rightarrow> Index" where
  "startup st r =
     (let accessToken = st ''accessToken'';
          refreshToken = st ''refreshToken''
      in case st ''banana-user'' of
           None \<Rightarrow> r
         | Some storedUser \<Rightarrow>
             if storedUser = [] then r
             else (let r1 = r\<lparr>username := storedUser\<rparr>
                   in if truthy accessToken \<or> truthy refreshToken
                      then r1\<lparr>view := Playing\<rparr>
                      else r1))"

definition handleLogin :: "string \<Rightarrow> storage \<times> Index \<Rightarrow> storage \<times> Index" where
  "handleLogin user = (\<lambda>(st, r).
     (st(''banana-user'' \<mapsto> user), r\<lparr>username := user, view := Playing\<rparr>))"

definition handleLogout :: "storage \<times> Index \<Rightarrow> storage \<times> Index" where
  "handleLogout = (\<lambda>(st, r).
     (clearStoredSession st, r\<lparr>username := [], view := Landing\<rparr>))"

definition handleGameComplete :: "int \<Rightarrow> Index \<Rightarrow> Index" where
  "handleGameComplete sc r = r\<lparr>finalScore := sc, view := Leaderboard\<rparr>"

definition handlePlayAgain :: "Index \<Rightarrow> Index" where
  "handlePlayAgain r = r\<lparr>view := Playing\<rparr>"

definition handleSelectAuth :: "AuthTab \<Rightarrow> Index \<Rightarrow> Index" where
  "handleSelectAuth mode r = r\<lparr>authTab := mode, view := Auth\<rparr>"

section \<open>Game round loop (the GamePage component)\<close>

subsection \<open>Data\<close>

datatype Difficulty = Easy | Medium | Hard

datatype PowerUpType = Hint | Freeze | SuperBanana

datatype LogoutEndpoint = Logout | LogoutAll

record PowerUps =
  hint :: int
  freeze :: int
  superBanana :: int

record BananaPuzzle =
  question :: string
  solution :: string

text \<open>
  The JSON object that \<^verbatim>\<open>check-puzzle\<close> answers with. A field the server leaves out is
  \<open>None\<close> (for the two flags: \<open>False\<close>, which is how the source reads them).
\<close>

record CheckResult =
  correct :: bool
  points :: "int option"
  result_combo :: "int option"
  xp_gained :: "int option"
  leveled_up :: bool
  new_level :: "int option"
  correct_answer :: "string option"

datatype check_outcome = Responded CheckResult | NetworkError

datatype logout_outcome = Resolved bool "string option" | Threw

text \<open>
  What leaves the component: notifications, HTTP requests and scheduled callbacks, kept in
  order in the state's \<open>trace\<close>. A notice names the \<^verbatim>\<open>toast\<close> call and carries the values
  interpolated into its text; a scheduled callback carries what its closure captured.
\<close>

datatype notice =
    TimeFrozen
  | SuperBananaActivated
  | PurchaseComplete PowerUpType int
  | Skipped
  | DoublePointsApplied
  | LevelUp int
  | CorrectNotice int int
  | IncorrectNotice string
  | SyncError
  | ApiError
  | SignedOut LogoutEndpoint string
  | LogoutError string

datatype callback = FreezeEnd | CelebrationEnd Difficulty | FailureEnd Difficulty

datatype effect =
    Toast notice
  | HttpGetPuzzle Difficulty
  | HttpCheckPuzzle string string int int
  | HttpPatchPlayer "(string \<times> int) list"
  | HttpGetGameStats
  | HttpLogout LogoutEndpoint
  | SetTimeout callback nat

text \<open>
  The component's \<^verbatim>\<open>useState\<close> cells that the round loop reads or writes (the particle and
  background arrays are random decoration and are left out), with two fields of the model:
  \<open>timerRunning\<close>, whether the timer effect currently holds an interval, and \<open>trace\<close>.
\<close>

record GamePage =
  puzzle :: "BananaPuzzle option"
  userAnswer :: string
  score :: int
  streak :: int
  timeLeft :: int
  loading :: bool
  showImageModal :: bool
  showCelebration :: bool
  showFailure :: bool
  coins :: int
  powerUps :: PowerUps
  puzzleStartTime :: int
  isTimerFrozen :: bool
  level :: int
  xp :: int
  xpNeeded :: int
  difficulty :: Difficulty
  combo :: int
  hintsUsedThisPuzzle :: int
  doublePointsActive :: bool
  isLoggingOut :: bool
  timerRunning :: bool
  trace :: "effect list"

definition GamePage_init :: GamePage where
  "GamePage_init =
     \<lparr>puzzle = None, userAnswer = [], score = 0, streak = 0, timeLeft = 40,
      loading = False, showImageModal = False, showCelebration = False,
      showFailure = False, coins = 10,
      powerUps = \<lparr>hint = 0, freeze = 0, superBanana = 0\<rparr>,
      puzzleStartTime = 0, isTimerFrozen = False, level = 1, xp = 0, xpNeeded = 100,
      difficulty = Medium, combo = 0, hintsUsedThisPuzzle = 0,
      doublePointsActive = False, isLoggingOut = False, timerRunning = False,
      trace = []\<rparr>"

definition emit :: "effect \<Rightarrow> GamePage \<Rightarrow> GamePage" where
  "emit e g = g\<lparr>trace := trace g @ [e]\<rparr>"

fun description :: "notice \<Rightarrow> string option" where
  "description TimeFrozen = Some ''+10 seconds added to timer!''"
| "description SuperBananaActivated =
     Some ''Your next correct answer will earn DOUBLE POINTS!''"
| "description Skipped = Some ''Streak reset. New puzzle loaded!''"
| "description DoublePointsApplied = Some ''Super Banana bonus applied!''"
| "description SyncError = Some ''Failed to sync player data with the server.''"
| "description ApiError = Some ''Failed to fetch puzzle. Please try again.''"
| "description (SignedOut e d) = Some d"
| "description (LogoutError d) = Some d"
| "description n = None"

subsection \<open>Backend synchronisation and puzzle acquisition\<close>

text \<open>
  \<^verbatim>\<open>updatePlayerData\<close> up to its request: without a stored access token it throws before
  any request is made, and its own handler turns that into the sync-error notice.
\<close>

definition updatePlayerData :: "storage \<Rightarrow> (string \<times> int) list \<Rightarrow> GamePage \<Rightarrow> GamePage" where
  "updatePlayerData st updates g =
     (if truthy (st ''accessToken'')
      then emit (HttpPatchPlayer updates) g
      else emit (Toast SyncError) g)"

definition timeLimits :: "Difficulty \<Rightarrow> int" where
  "timeLimits d = (case d of Easy \<Rightarrow> 50 | Medium \<Rightarrow> 40 | Hard \<Rightarrow> 30)"

text \<open>
  \<^verbatim>\<open>fetchPuzzle\<close> is split at its \<^verbatim>\<open>await\<close>: the part that runs at the call, and the two
  ways the request settles. The difficulty is the one of the render whose closure made
  the call.
\<close>

definition fetchPuzzle :: "Difficulty \<Rightarrow> GamePage \<Rightarrow> GamePage" where
  "fetchPuzzle d g =
     emit (HttpGetPuzzle d)
       (g\<lparr>loading := True, isTimerFrozen := False, userAnswer := [],
          hintsUsedThisPuzzle := 0\<rparr>)"

definition fetchPuzzle_loaded :: "Difficulty \<Rightarrow> BananaPuzzle \<Rightarrow> int \<Rightarrow> GamePage \<Rightarrow> GamePage" where
  "fetchPuzzle_loaded d p now g =
     g\<lparr>puzzle := Some p, timeLeft := timeLimits d, puzzleStartTime := now,
       showImageModal := True, loading := False\<rparr>"

definition fetchPuzzle_failed :: "GamePage \<Rightarrow> GamePage" where
  "fetchPuzzle_failed g = (emit (Toast ApiError) g)\<lparr>loading := False\<rparr>"

text \<open>
  The player record as \<^verbatim>\<open>fetchPlayerData\<close> reads it from the backend, and what the
  component adopts from it (the achievement list is presentation and is left out).
\<close>

record PlayerData =
  data_coins :: int
  hints :: int
  freezes :: int
  super_bananas :: int
  data_level :: "int option"
  data_xp :: "int option"
  data_difficulty :: "Difficulty option"
  combo_count :: "int option"

definition fetchPlayerData_loaded :: "PlayerData \<Rightarrow> GamePage \<Rightarrow> GamePage" where
  "fetchPlayerData_loaded d g =
     (let g1 = g\<lparr>coins := data_coins d,
                  powerUps := \<lparr>hint = hints d, freeze = freezes d,
                               superBanana = super_bananas d\<rparr>\<rparr>;
          g2 = (case data_level d of
                  None \<Rightarrow> g1
                | Some l \<Rightarrow> if l = 0 then g1 else g1\<lparr>level := l\<rparr>);
          g3 = (case data_xp d of None \<Rightarrow> g2 | Some x \<Rightarrow> g2\<lparr>xp := x\<rparr>);
          g4 = (case data_difficulty d of None \<Rightarrow> g3 | Some v \<Rightarrow> g3\<lparr>difficulty := v\<rparr>)
      in case combo_count d of None \<Rightarrow> g4 | Some c \<Rightarrow> g4\<lparr>combo := c\<rparr>)"

definition fetchGameStats :: "storage \<Rightarrow> GamePage \<Rightarrow> GamePage" where
  "fetchGameStats st g =
     (if truthy (st ''accessToken'') then emit HttpGetGameStats g else g)"

subsection \<open>Skip and the countdown effect\<close>

definition handleSkip :: "GamePage \<Rightarrow> GamePage" where
  "handleSkip g = fetchPuzzle (difficulty g) (emit (Toast Skipped) (g\<lparr>streak := 0\<rparr>))"

text \<open>
  One run of the timer effect for the render \<open>g\<close>: the previous run's cleanup clears its
  interval, then the body either skips, or leaves the timer stopped, or sets a new interval.
\<close>

definition timerEffect :: "GamePage \<Rightarrow> GamePage" where
  "timerEffect g =
     (let g0 = g\<lparr>timerRunning := False\<rparr>
      in if timeLeft g \<le> 0 then handleSkip g0
         else if isTimerFrozen g then g0
         else g0\<lparr>timerRunning := True\<rparr>)"

text \<open>
  React runs the effect after a render whose dependencies \<^verbatim>\<open>[timeLeft, isTimerFrozen]\<close>
  differ from those of the render before; the state the effect sets is rendered in turn.
\<close>

function rerender :: "GamePage \<Rightarrow> GamePage \<Rightarrow> GamePage" where
  "rerender prev g =
     (if timeLeft prev = timeLeft g \<and> isTimerFrozen prev = isTimerFrozen g then g
      else rerender g (timerEffect g))"
  by pat_completeness auto
termination
  by (relation "measure (\<lambda>(prev, g).
        if timeLeft prev = timeLeft g \<and> isTimerFrozen prev = isTimerFrozen g then 0
        else if timeLeft g \<le> 0 \<and> isTimerFrozen g then 2 else 1)")
     (auto simp: timerEffect_def handleSkip_def fetchPuzzle_def emit_def Let_def)

declare rerender.simps [simp del]

subsection \<open>Power-ups and the shop\<close>

definition useFreeze :: "storage \<Rightarrow> GamePage \<Rightarrow> GamePage" where
  "useFreeze st g =
     (if 0 < freeze (powerUps g) \<and> \<not> isTimerFrozen g
      then (let newFreezeCount = freeze (powerUps g) - 1;
                g1 = g\<lparr>powerUps := (powerUps g)\<lparr>freeze := newFreezeCount\<rparr>\<rparr>;
                g2 = updatePlayerData st [(''freezes'', newFreezeCount)] g1;
                g3 = g2\<lparr>isTimerFrozen := True\<rparr>;
                g4 = emit (SetTimeout FreezeEnd 100) g3
            in emit (Toast TimeFrozen) g4)
      else g)"

text \<open>The callback that \<^verbatim>\<open>useFreeze\<close> schedules; both updates read the state at firing time.\<close>

definition freezeEnd :: "GamePage \<Rightarrow> GamePage" where
  "freezeEnd g = g\<lparr>timeLeft := timeLeft g + 20, isTimerFrozen := False\<rparr>"

definition useSuperBanana :: "storage \<Rightarrow> GamePage \<Rightarrow> GamePage" where
  "useSuperBanana st g =
     (if 0 < superBanana (powerUps g)
      then (let newSuperBananaCount = superBanana (powerUps g) - 1;
                g1 = g\<lparr>powerUps := (powerUps g)\<lparr>superBanana := newSuperBananaCount\<rparr>\<rparr>;
                g2 = updatePlayerData st [(''super_bananas'', newSuperBananaCount)] g1;
                g3 = g2\<lparr>doublePointsActive := True\<rparr>
            in emit (Toast SuperBananaActivated) g3)
      else g)"

fun count :: "PowerUpType \<Rightarrow> PowerUps \<Rightarrow> int" where
  "count Hint ps = hint ps"
| "count Freeze ps = freeze ps"
| "count SuperBanana ps = superBanana ps"

fun set_count :: "PowerUpType \<Rightarrow> int \<Rightarrow> PowerUps \<Rightarrow> PowerUps" where
  "set_count Hint n ps = ps\<lparr>hint := n\<rparr>"
| "set_count Freeze n ps = ps\<lparr>freeze := n\<rparr>"
| "set_count SuperBanana n ps = ps\<lparr>superBanana := n\<rparr>"

fun playerField :: "PowerUpType \<Rightarrow> string" where
  "playerField Hint = ''hints''"
| "playerField Freeze = ''freezes''"
| "playerField SuperBanana = ''super_bananas''"

definition buyPowerUp :: "storage \<Rightarrow> PowerUpType \<Rightarrow> int \<Rightarrow> GamePage \<Rightarrow> GamePage" where
  "buyPowerUp st powerUpType cost g =
     (if cost \<le> coins g
      then (let newCoinTotal = coins g - cost;
                newPowerUpCount = count powerUpType (powerUps g) + 1;
                g1 = g\<lparr>coins := newCoinTotal,
                       powerUps := set_count powerUpType newPowerUpCount (powerUps g)\<rparr>;
                g2 = updatePlayerData st
                       [(''coins'', newCoinTotal), (playerField powerUpType, newPowerUpCount)] g1
            in emit (Toast (PurchaseComplete powerUpType cost)) g2)
      else g)"

subsection \<open>Answer submission\<close>

text \<open>
  \<^verbatim>\<open>checkAnswer\<close>: a request that throws (or a body that is not JSON) is caught and
  replaced by \<^verbatim>\<open>{ correct: false, error: "Network error" }\<close>.
\<close>

definition checkAnswer :: "check_outcome \<Rightarrow> CheckResult" where
  "checkAnswer out =
     (case out of
        Responded r \<Rightarrow> r
      | NetworkError \<Rightarrow>
          \<lparr>correct = False, points = None, result_combo = None, xp_gained = None,
           leveled_up = False, new_level = None, correct_answer = None\<rparr>)"

text \<open>
  The part of \<^verbatim>\<open>handleSubmit\<close> after the verdict has arrived. \<open>c\<close> is the render whose
  closure is running (score, coins, streak, the armed flag and the difficulty are read from
  it), \<open>g\<close> the state the updates are applied to.
\<close>

definition handleSubmit_resolved ::
    "storage \<Rightarrow> GamePage \<Rightarrow> CheckResult \<Rightarrow> GamePage \<Rightarrow> GamePage" where
  "handleSubmit_resolved st c result g =
     (if correct result
      then (let points0 = or_num (points result) 10;
                pts = (if doublePointsActive c then points0 * 2 else points0);
                g1 = (if doublePointsActive c
                      then emit (Toast DoublePointsApplied) (g\<lparr>doublePointsActive := False\<rparr>)
                      else g);
                earnedCoins = 5 + or_num (result_combo result) 0 div 2;
                newScore = score c + pts;
                newCoins = coins c + earnedCoins;
                newStreak = streak c + 1;
                g2 = g1\<lparr>score := newScore, coins := newCoins, streak := newStreak,
                        combo := or_num (result_combo result) 0\<rparr>;
                g3 = (case xp_gained result of
                        None \<Rightarrow> g2
                      | Some n \<Rightarrow> if n = 0 then g2 else g2\<lparr>xp := xp g2 + n\<rparr>);
                g4 = (case new_level result of
                        None \<Rightarrow> g3
                      | Some l \<Rightarrow>
                          if leveled_up result \<and> l \<noteq> 0
                          then emit (Toast (LevelUp l)) (g3\<lparr>level := l, xpNeeded := 100\<rparr>)
                          else g3);
                g5 = updatePlayerData st [(''coins'', newCoins)] g4;
                g6 = emit (Toast (CorrectNotice pts earnedCoins)) g5;
                g7 = g6\<lparr>showCelebration := True\<rparr>
            in emit (SetTimeout (CelebrationEnd (difficulty c)) 2000) g7)
      else (let g1 = g\<lparr>streak := 0, combo := 0, showFailure := True\<rparr>;
                g2 = emit (Toast (IncorrectNotice (or_str (correct_answer result) ''unknown''))) g1
            in emit (SetTimeout (FailureEnd (difficulty c)) 2000) g2))"

text \<open>
  \<^verbatim>\<open>handleSubmit\<close> with its verdict arriving before any other event: the closure's render
  is the state the handler was invoked in. \<open>now\<close> is the clock reading at the call.
\<close>

definition handleSubmit :: "storage \<Rightarrow> int \<Rightarrow> check_outcome \<Rightarrow> GamePage \<Rightarrow> GamePage" where
  "handleSubmit st now out g =
     (case puzzle g of
        None \<Rightarrow> g
      | Some p \<Rightarrow>
          if userAnswer g = [] then g
          else (let timeTaken = (if 0 < puzzleStartTime g
                                 then (now - puzzleStartTime g) div 1000 else 0);
                    g1 = emit (HttpCheckPuzzle (userAnswer g) (question p) timeTaken
                                 (hintsUsedThisPuzzle g)) g
                in handleSubmit_resolved st g (checkAnswer out) g1))"

text \<open>
  The part of \<^verbatim>\<open>handleSubmit\<close> before its \<^verbatim>\<open>await\<close>, on its own: the guard and the request.
  It sets no state, so the Submit button stays enabled while the check is pending.
\<close>

definition handleSubmit_begin :: "int \<Rightarrow> GamePage \<Rightarrow> GamePage" where
  "handleSubmit_begin now g =
     (case puzzle g of
        None \<Rightarrow> g
      | Some p \<Rightarrow>
          if userAnswer g = [] then g
          else (let timeTaken = (if 0 < puzzleStartTime g
                                 then (now - puzzleStartTime g) div 1000 else 0)
                in emit (HttpCheckPuzzle (userAnswer g) (question p) timeTaken
                           (hintsUsedThisPuzzle g)) g))"

text \<open>The two callbacks scheduled 2000 ms after a verdict.\<close>

definition celebrationEnd :: "storage \<Rightarrow> Difficulty \<Rightarrow> GamePage \<Rightarrow> GamePage" where
  "celebrationEnd st d g = fetchGameStats st (fetchPuzzle d (g\<lparr>showCelebration := False\<rparr>))"

definition failureEnd :: "storage \<Rightarrow> Difficulty \<Rightarrow> GamePage \<Rightarrow> GamePage" where
  "failureEnd st d g = fetchGameStats st (fetchPuzzle d (g\<lparr>showFailure := False\<rparr>))"

subsection \<open>Events\<close>

text \<open>
  One event of the browser's event loop: the handler runs on the rendered state, React
  renders the result and runs the timer effect where its dependencies changed. A tick
  exists only while the effect holds an interval. A submission is either \<open>SubmitPressed\<close>,
  whose verdict arrives before anything else happens, or the pair \<open>SubmitClicked\<close> and
  \<open>VerdictArrived\<close> with other events in between; the verdict then carries the render in
  which Submit was clicked, since that is what the running closure reads.
\<close>

datatype event =
    Tick
  | SkipPressed
  | FreezePressed
  | SuperBananaPressed
  | BuyPressed PowerUpType int
  | AnswerTyped string
  | SubmitPressed int check_outcome
  | TimeoutFired callback
  | PuzzleLoaded Difficulty BananaPuzzle int
  | PuzzleFailed
  | PlayerLoaded PlayerData
  | ImageModalOpenChange bool
  | SubmitClicked int
  | VerdictArrived GamePage check_outcome

fun handle :: "storage \<Rightarrow> event \<Rightarrow> GamePage \<Rightarrow> GamePage" where
  "handle st Tick g = (if timerRunning g then g\<lparr>timeLeft := timeLeft g - 1\<rparr> else g)"
| "handle st SkipPressed g = handleSkip g"
| "handle st FreezePressed g = useFreeze st g"
| "handle st SuperBananaPressed g = useSuperBanana st g"
| "handle st (BuyPressed p cost) g = buyPowerUp st p cost g"
| "handle st (AnswerTyped a) g = g\<lparr>userAnswer := a\<rparr>"
| "handle st (SubmitPressed now out) g = handleSubmit st now out g"
| "handle st (TimeoutFired FreezeEnd) g = freezeEnd g"
| "handle st (TimeoutFired (CelebrationEnd d)) g = celebrationEnd st d g"
| "handle st (TimeoutFired (FailureEnd d)) g = failureEnd st d g"
| "handle st (PuzzleLoaded d p now) g = fetchPuzzle_loaded d p now g"
| "handle st PuzzleFailed g = fetchPuzzle_failed g"
| "handle st (PlayerLoaded d) g = fetchPlayerData_loaded d g"
| "handle st (ImageModalOpenChange b) g = g\<lparr>showImageModal := b\<rparr>"
| "handle st (SubmitClicked now) g = handleSubmit_begin now g"
| "handle st (VerdictArrived c out) g = handleSubmit_resolved st c (checkAnswer out) g"

definition step :: "storage \<Rightarrow> event \<Rightarrow> GamePage \<Rightarrow> GamePage" where
  "step st ev g = rerender g (handle st ev g)"

fun run :: "storage \<Rightarrow> event list \<Rightarrow> GamePage \<Rightarrow> GamePage" where
  "run st [] g = g"
| "run st (ev # evs) g = run st evs (step st ev g)"

text \<open>
  Mounting: the first effect issues the first puzzle request, the timer effect runs for the
  initial render. The requests for player data, statistics and the daily challenge made at
  the same time are not part of the round loop and are left out of the trace; the player
  record arrives as the event \<open>PlayerLoaded\<close>.
\<close>

definition mount :: GamePage where
  "mount = rerender GamePage_init (timerEffect (fetchPuzzle Medium GamePage_init))"

subsection \<open>Logout\<close>

text \<open>
  The router and the game screen it has mounted, with the storage both reach.
  \<^verbatim>\<open>invokeLogoutEndpoint\<close> belongs to \<^verbatim>\<open>@/lib/auth\<close> as well; what it resolves to (or that it
  throws) is the argument \<open>out\<close>. The \<^verbatim>\<open>onLogout\<close> property is the router's \<open>handleLogout\<close>.
\<close>

record App =
  localStorage :: storage
  router :: Index
  page :: GamePage

definition logoutNotice :: "LogoutEndpoint \<Rightarrow> logout_outcome \<Rightarrow> effect list" where
  "logoutNotice endpoint out =
     (case out of
        Threw \<Rightarrow> []
      | Resolved ok message \<Rightarrow>
          if ok
          then [Toast (SignedOut endpoint
                  (or_str message
                     (if endpoint = LogoutAll
                      then ''You have been logged out on all devices.''
                      else ''You have been logged out on this device.'')))]
          else (case message of
                  None \<Rightarrow> []
                | Some m \<Rightarrow> if m = [] then [] else [Toast (LogoutError m)]))"

definition handleLogoutRequest :: "LogoutEndpoint \<Rightarrow> logout_outcome \<Rightarrow> App \<Rightarrow> App" where
  "handleLogoutRequest endpoint out a =
     (if isLoggingOut (page a) then a
      else (let g1 = emit (HttpLogout endpoint) ((page a)\<lparr>isLoggingOut := True\<rparr>);
                g2 = g1\<lparr>trace := trace g1 @ logoutNotice endpoint out\<rparr>;
                st1 = clearStoredSession (localStorage a);
                g3 = g2\<lparr>isLoggingOut := False\<rparr>;
                (st2, r2) = handleLogout (st1, router a)
            in \<lparr>localStorage = st2, router = r2, page = g3\<rparr>))"

subsection \<open>Sessions and play-throughs used as concrete inputs\<close>

definition session_full :: storage where
  "session_full =
     [''banana-user'' \<mapsto> ''ann'', ''accessToken'' \<mapsto> ''a1'', ''refreshToken'' \<mapsto> ''r1'']"

definition session_refresh_only :: storage where
  "session_refresh_only = [''banana-user'' \<mapsto> ''ann'', ''refreshToken'' \<mapsto> ''r1'']"

definition puzzle1 :: BananaPuzzle where
  "puzzle1 = \<lparr>question = ''https://img/p1.png'', solution = ''5''\<rparr>"

definition player1 :: PlayerData where
  "player1 =
     \<lparr>data_coins = 40, hints = 1, freezes = 1, super_bananas = 1, data_level = None,
      data_xp = None, data_difficulty = None, combo_count = None\<rparr>"

definition verdict :: "bool \<Rightarrow> int option \<Rightarrow> int option \<Rightarrow> CheckResult" where
  "verdict ok pts cmb =
     \<lparr>correct = ok, points = pts, result_combo = cmb, xp_gained = None,
      leveled_up = False, new_level = None, correct_answer = None\<rparr>"

text \<open>
  The first puzzle has arrived, its image dialog has been closed, and the whole medium
  countdown has run out.
\<close>

definition expired :: GamePage where
  "expired = run session_full
     (PlayerLoaded player1 # PuzzleLoaded Medium puzzle1 1000 # ImageModalOpenChange False #
      replicate 40 Tick) mount"

text \<open>The first puzzle is on screen and an answer is typed in.\<close>

definition answering :: GamePage where
  "answering = run session_full
     [PlayerLoaded player1, PuzzleLoaded Medium puzzle1 1000, ImageModalOpenChange False,
      AnswerTyped ''5''] mount"

text \<open>The same, after the Super Banana button has been pressed.\<close>

definition armed :: GamePage where
  "armed = step session_full SuperBananaPressed answering"

text \<open>A correct answer whose verdict carries combo 3, and the next puzzle on screen.\<close>

definition combo3 :: GamePage where
  "combo3 = run session_full
     [SubmitPressed 3000 (Responded (verdict True (Some 12) (Some 3))),
      TimeoutFired (CelebrationEnd Medium), PuzzleLoaded Medium puzzle1 6000,
      ImageModalOpenChange False] answering"

text \<open>
  Submit has been clicked on the first puzzle and two seconds have passed with the check
  still pending: without the bonus, and with it armed before the click.
\<close>

definition check_pending :: GamePage where
  "check_pending = run session_full [SubmitClicked 3000, Tick, Tick] answering"

definition armed_check_pending :: GamePage where
  "armed_check_pending = run session_full [SubmitClicked 3000, Tick, Tick] armed"

text \<open>The second puzzle is on screen (streak 1, combo 3) and an answer is typed in.\<close>

definition answering_again :: GamePage where
  "answering_again = step session_full (AnswerTyped ''7'') combo3"

text \<open>The router has started on the full session and shows the game screen.\<close>

definition playing_app :: App where
  "playing_app =
     \<lparr>localStorage = session_full, router = startup session_full Index_init,
      page = answering\<rparr>"

text \<open>
  What the countdown maintains: the remaining time is not negative, and an interval is held
  only while time remains and the timer is not frozen.
\<close>

definition timer_inv :: "GamePage \<Rightarrow> bool" where
  "timer_inv g =
     (0 \<le> timeLeft g \<and>
      (if timerRunning g then 0 < timeLeft g \<and> \<not> isTimerFrozen g else True))"

section \<open>The render loop\<close>

lemma timerEffect_deps:
  "timeLeft (timerEffect g) = timeLeft g"
  "isTimerFrozen (timerEffect g) = (if timeLeft g \<le> 0 then False else isTimerFrozen g)"
  by (simp_all add: timerEffect_def handleSkip_def fetchPuzzle_def emit_def Let_def)

text \<open>The effect runs at most twice in a row: the second run finds nothing changed.\<close>

lemma rerender_cases:
  "rerender p g =
     (if timeLeft p = timeLeft g \<and> isTimerFrozen p = isTimerFrozen g then g
      else if timeLeft g \<le> 0 \<and> isTimerFrozen g then timerEffect (timerEffect g)
      else timerEffect g)"
proof -
  have stable: "rerender (timerEffect h) (timerEffect (timerEffect h))
                  = timerEffect (timerEffect h)" for h
    by (subst rerender.simps) (simp add: timerEffect_deps)
  have once: "rerender g (timerEffect g) =
      (if timeLeft g \<le> 0 \<and> isTimerFrozen g then timerEffect (timerEffect g)
       else timerEffect g)"
    by (subst rerender.simps) (auto simp: timerEffect_deps stable)
  show ?thesis
    by (subst rerender.simps) (simp add: once)
qed

lemma timerEffect_keeps:
  "coins (timerEffect g) = coins g"
  "powerUps (timerEffect g) = powerUps g"
  "score (timerEffect g) = score g"
  "combo (timerEffect g) = combo g"
  "doublePointsActive (timerEffect g) = doublePointsActive g"
  by (simp_all add: timerEffect_def handleSkip_def fetchPuzzle_def emit_def Let_def)

lemma rerender_keeps:
  "timeLeft (rerender p g) = timeLeft g"
  "coins (rerender p g) = coins g"
  "powerUps (rerender p g) = powerUps g"
  "score (rerender p g) = score g"
  "combo (rerender p g) = combo g"
  "doublePointsActive (rerender p g) = doublePointsActive g"
  by (simp_all add: rerender_cases timerEffect_keeps timerEffect_deps)

lemma rerender_unfrozen: "\<not> isTimerFrozen g \<Longrightarrow> \<not> isTimerFrozen (rerender p g)"
  by (simp add: rerender_cases timerEffect_deps)

section \<open>The countdown\<close>

lemma timerEffect_inv: "0 \<le> timeLeft g \<Longrightarrow> timer_inv (timerEffect g)"
  by (simp add: timer_inv_def timerEffect_def handleSkip_def fetchPuzzle_def emit_def Let_def)

lemma rerender_inv:
  assumes "0 \<le> timeLeft g"
    and "timeLeft p = timeLeft g \<and> isTimerFrozen p = isTimerFrozen g \<Longrightarrow> timer_inv g"
  shows "timer_inv (rerender p g)"
  using assms by (auto simp: rerender_cases timerEffect_inv timerEffect_deps)

lemma timeLimits_pos: "0 < timeLimits d"
  by (cases d) (simp_all add: timeLimits_def)

lemmas handler_defs =
  handleSkip_def fetchPuzzle_def fetchPuzzle_loaded_def fetchPuzzle_failed_def
  fetchPlayerData_loaded_def fetchGameStats_def updatePlayerData_def emit_def
  useFreeze_def freezeEnd_def useSuperBanana_def buyPowerUp_def
  handleSubmit_def handleSubmit_begin_def handleSubmit_resolved_def celebrationEnd_def
  failureEnd_def Let_def

lemma handle_timerRunning: "timerRunning (handle st ev g) = timerRunning g"
  by (induction st ev g rule: handle.induct)
     (simp_all add: handler_defs split: option.splits)

lemma handle_timeLeft: "timer_inv g \<Longrightarrow> 0 \<le> timeLeft (handle st ev g)"
proof (induction st ev g rule: handle.induct)
  case (11 st d p now g)
  show ?case using timeLimits_pos [of d] by (simp add: fetchPuzzle_loaded_def)
qed (simp_all add: timer_inv_def handler_defs split: option.splits if_splits)

lemma step_inv: "timer_inv g \<Longrightarrow> timer_inv (step st ev g)"
  unfolding step_def
proof (rule rerender_inv)
  assume inv: "timer_inv g"
  show "0 \<le> timeLeft (handle st ev g)" using inv by (rule handle_timeLeft)
  assume "timeLeft g = timeLeft (handle st ev g)
            \<and> isTimerFrozen g = isTimerFrozen (handle st ev g)"
  with inv show "timer_inv (handle st ev g)"
    by (auto simp: timer_inv_def handle_timerRunning)
qed

lemma mount_inv: "timer_inv mount"
  by (simp add: mount_def rerender_cases timerEffect_def fetchPuzzle_def emit_def
        GamePage_init_def timer_inv_def)

lemma run_inv: "timer_inv g \<Longrightarrow> timer_inv (run st evs g)"
  by (induction evs arbitrary: g) (simp_all add: step_inv)

text \<open>
  The parts of the countdown property that the code keeps. Whatever happens after
  mounting, the remaining time is never negative; a tick takes exactly one second off; a
  tick that leaves time on the clock does nothing else; the tick that reaches zero runs
  the skip handler once.
\<close>

lemma timeLeft_never_negative: "0 \<le> timeLeft (run st evs mount)"
  using run_inv [OF mount_inv] by (simp add: timer_inv_def)

lemma tick_decrements: "timerRunning g \<Longrightarrow> timeLeft (step st Tick g) = timeLeft g - 1"
  by (simp add: step_def rerender_keeps)

lemma tick_before_expiry:
  "timerRunning g \<Longrightarrow> \<not> isTimerFrozen g \<Longrightarrow> 1 < timeLeft g \<Longrightarrow>
     step st Tick g = g\<lparr>timeLeft := timeLeft g - 1\<rparr>"
  by (simp add: step_def rerender_cases timerEffect_def)

lemma tick_expiry:
  "timerRunning g \<Longrightarrow> \<not> isTimerFrozen g \<Longrightarrow> timeLeft g = 1 \<Longrightarrow>
     step st Tick g = handleSkip (g\<lparr>timeLeft := 0, timerRunning := False\<rparr>)"
  by (simp add: step_def rerender_cases timerEffect_def)

text \<open>
  C1, countdown invariant: when the time reaches zero a skip is triggered exactly once and
  no second skip fires for the same expiry. The code breaks the last part. After the medium
  countdown has run out (one skip, one puzzle request, the time at zero), pressing the
  freeze button changes \<^verbatim>\<open>isTimerFrozen\<close>, the timer effect runs again, still finds the time
  at zero and skips; that skip clears the flag, and the effect runs and skips once more:
  three skips and three puzzle requests for one expiry. It makes no difference whether the
  puzzle request of the first skip is still pending or has failed when the button is
  pressed.
\<close>

theorem C1_freeze_at_expiry_skips_again:
  "timeLeft expired = 0
   \<and> trace expired = [HttpGetPuzzle Medium, Toast Skipped, HttpGetPuzzle Medium]
   \<and> timeLeft (step session_full FreezePressed expired) = 0
   \<and> trace (step session_full FreezePressed expired) =
       [HttpGetPuzzle Medium, Toast Skipped, HttpGetPuzzle Medium,
        HttpPatchPlayer [(''freezes'', 0)], SetTimeout FreezeEnd 100, Toast TimeFrozen,
        Toast Skipped, HttpGetPuzzle Medium, Toast Skipped, HttpGetPuzzle Medium]
   \<and> trace (run session_full [PuzzleFailed, FreezePressed] expired) =
       [HttpGetPuzzle Medium, Toast Skipped, HttpGetPuzzle Medium, Toast ApiError,
        HttpPatchPlayer [(''freezes'', 0)], SetTimeout FreezeEnd 100, Toast TimeFrozen,
        Toast Skipped, HttpGetPuzzle Medium, Toast Skipped, HttpGetPuzzle Medium]"
  by code_simp

section \<open>Skip\<close>

text \<open>
  C2 as stated fails: a skip does not reset the combo counter. After a correct answer whose
  verdict carries combo 3, pressing Skip resets the streak and leaves the combo at 3.
\<close>

theorem C2_skip_keeps_combo_counterexample:
  "combo combo3 = 3
   \<and> combo (step session_full SkipPressed combo3) = 3
   \<and> streak (step session_full SkipPressed combo3) = 0"
  by code_simp

text \<open>
  C2 (amended): every skip, whether from the Skip button or from the tick that brings the
  time to zero, runs the one skip handler: it resets the streak to 0, leaves the combo
  counter as it is, raises the skip notice and issues exactly one puzzle request; nothing
  else leaves the component, so the verification endpoint is not called.
\<close>

theorem C2_skip_resets_streak_and_fetches_once:
  "streak (handleSkip g) = 0
   \<and> combo (handleSkip g) = combo g
   \<and> trace (handleSkip g) = trace g @ [Toast Skipped, HttpGetPuzzle (difficulty g)]
   \<and> handle st SkipPressed g = handleSkip g
   \<and> (timerRunning g \<and> \<not> isTimerFrozen g \<and> timeLeft g = 1 \<longrightarrow>
        step st Tick g = handleSkip (g\<lparr>timeLeft := 0, timerRunning := False\<rparr>))"
  by (simp add: handleSkip_def fetchPuzzle_def emit_def step_def rerender_cases
        timerEffect_def)

text \<open>The amended C2 at the last second of a round with combo 3.\<close>

theorem C2_skip_resets_streak_and_fetches_once_witness:
  "timerRunning (GamePage_init\<lparr>timeLeft := 1, timerRunning := True, combo := 3\<rparr>)
   \<and> step Map.empty Tick (GamePage_init\<lparr>timeLeft := 1, timerRunning := True, combo := 3\<rparr>)
       = handleSkip (GamePage_init\<lparr>timeLeft := 0, timerRunning := False, combo := 3\<rparr>)
   \<and> trace (handleSkip (GamePage_init\<lparr>timeLeft := 0, timerRunning := False, combo := 3\<rparr>))
       = [Toast Skipped, HttpGetPuzzle Medium]"
  using C2_skip_resets_streak_and_fetches_once
          [of "GamePage_init\<lparr>timeLeft := 1, timerRunning := True, combo := 3\<rparr>" Map.empty]
        C2_skip_resets_streak_and_fetches_once
          [of "GamePage_init\<lparr>timeLeft := 0, timerRunning := False, combo := 3\<rparr>" Map.empty]
  by (simp add: GamePage_init_def)

section \<open>Session startup\<close>

text \<open>
  C3, session startup routing: on first mount, a remembered (non-empty) username together
  with an access or a refresh credential leads straight to the playing view; a remembered
  username without either credential stays on the landing view with the username filled
  in; no remembered username stays on landing with no username set.
\<close>

theorem C3_startup_routing:
  "(st ''banana-user'' = Some u \<and> u \<noteq> [] \<and>
      (truthy (st ''accessToken'') \<or> truthy (st ''refreshToken'')) \<longrightarrow>
        view (startup st Index_init) = Playing \<and> username (startup st Index_init) = u)
   \<and> (st ''banana-user'' = Some u \<and> u \<noteq> [] \<and>
      \<not> truthy (st ''accessToken'') \<and> \<not> truthy (st ''refreshToken'') \<longrightarrow>
        view (startup st Index_init) = Landing \<and> username (startup st Index_init) = u)
   \<and> (\<not> truthy (st ''banana-user'') \<longrightarrow>
        view (startup st Index_init) = Landing \<and> username (startup st Index_init) = [])"
  by (cases "st ''banana-user''") (auto simp: startup_def Index_init_def Let_def)

text \<open>C3 on four stores: access token, refresh token only, username only, empty.\<close>

theorem C3_startup_routing_witness:
  "view (startup [''banana-user'' \<mapsto> ''ann'', ''accessToken'' \<mapsto> ''a1''] Index_init) = Playing
   \<and> username (startup [''banana-user'' \<mapsto> ''ann'', ''accessToken'' \<mapsto> ''a1''] Index_init)
       = ''ann''
   \<and> view (startup session_refresh_only Index_init) = Playing
   \<and> view (startup [''banana-user'' \<mapsto> ''ann''] Index_init) = Landing
   \<and> username (startup [''banana-user'' \<mapsto> ''ann''] Index_init) = ''ann''
   \<and> view (startup Map.empty Index_init) = Landing
   \<and> username (startup Map.empty Index_init) = []"
  using C3_startup_routing
          [of "[''banana-user'' \<mapsto> ''ann'', ''accessToken'' \<mapsto> ''a1'']" "''ann''"]
        C3_startup_routing [of session_refresh_only "''ann''"]
        C3_startup_routing [of "[''banana-user'' \<mapsto> ''ann'']" "''ann''"]
        C3_startup_routing [of Map.empty "''ann''"]
  by (simp add: session_refresh_only_def)

section \<open>The shop\<close>

lemma count_set_count:
  "count p (set_count p n ps) = n"
  "q \<noteq> p \<Longrightarrow> count q (set_count p n ps) = count q ps"
  by (cases p; cases q; simp)+

lemma buyPowerUp_unaffordable: "coins g < cost \<Longrightarrow> buyPowerUp st p cost g = g"
  by (simp add: buyPowerUp_def)

lemma buyPowerUp_deps:
  "timeLeft (buyPowerUp st p cost g) = timeLeft g"
  "isTimerFrozen (buyPowerUp st p cost g) = isTimerFrozen g"
  by (simp_all add: buyPowerUp_def updatePlayerData_def emit_def Let_def)

lemma buyPowerUp_affordable:
  assumes "cost \<le> coins g"
  shows "coins (buyPowerUp st p cost g) = coins g - cost"
    and "powerUps (buyPowerUp st p cost g)
           = set_count p (count p (powerUps g) + 1) (powerUps g)"
    and "trace (buyPowerUp st p cost g) =
            trace g @
              [if truthy (st ''accessToken'')
               then HttpPatchPlayer
                      [(''coins'', coins g - cost), (playerField p, count p (powerUps g) + 1)]
               else Toast SyncError,
               Toast (PurchaseComplete p cost)]"
  using assms by (simp_all add: buyPowerUp_def updatePlayerData_def emit_def Let_def)

text \<open>
  C4 as stated fails in its last part: an affordable purchase is not always pushed to the
  backend. The router starts the game on a refresh credential alone; there the first
  purchase (a hint for the 10 starting coins) changes coins and inventory, and no request
  is made: the sync throws on the missing access token and only its notice appears.
\<close>

theorem C4_purchase_without_access_token_counterexample:
  "view (startup session_refresh_only Index_init) = Playing
   \<and> coins mount = 10
   \<and> coins (step session_refresh_only (BuyPressed Hint 10) mount) = 0
   \<and> hint (powerUps (step session_refresh_only (BuyPressed Hint 10) mount)) = 1
   \<and> trace (step session_refresh_only (BuyPressed Hint 10) mount) =
       [HttpGetPuzzle Medium, Toast SyncError, Toast (PurchaseComplete Hint 10)]"
  by code_simp

text \<open>
  C4 (amended), power-up spend guard: a purchase attempt with \<open>coins < cost\<close> changes
  nothing (state and trace are the same, so no backend call is made). With
  \<open>coins \<ge> cost\<close> the coins go down by exactly the cost, the chosen power-up count goes up
  by exactly 1, the other counts stay, and both new values are sent to the backend in one
  request when an access token is stored; without one no request is made and the sync-error
  notice is raised instead. The render that follows changes nothing further.
\<close>

theorem C4_purchase_guard:
  "(coins g < cost \<longrightarrow> buyPowerUp st p cost g = g)
   \<and> (cost \<le> coins g \<longrightarrow>
        coins (buyPowerUp st p cost g) = coins g - cost
        \<and> count p (powerUps (buyPowerUp st p cost g)) = count p (powerUps g) + 1
        \<and> (\<forall>q. q \<noteq> p \<longrightarrow>
              count q (powerUps (buyPowerUp st p cost g)) = count q (powerUps g))
        \<and> trace (buyPowerUp st p cost g) =
            trace g @
              [if truthy (st ''accessToken'')
               then HttpPatchPlayer
                      [(''coins'', coins g - cost), (playerField p, count p (powerUps g) + 1)]
               else Toast SyncError,
               Toast (PurchaseComplete p cost)])
   \<and> step st (BuyPressed p cost) g = buyPowerUp st p cost g"
proof (intro conjI impI allI)
  show "step st (BuyPressed p cost) g = buyPowerUp st p cost g"
    by (simp add: step_def rerender_cases buyPowerUp_deps)
qed (simp_all add: buyPowerUp_unaffordable buyPowerUp_affordable count_set_count)

lemma mount_fields:
  "coins mount = 10"
  "powerUps mount = \<lparr>hint = 0, freeze = 0, superBanana = 0\<rparr>"
  "trace mount = [HttpGetPuzzle Medium]"
  by code_simp+

text \<open>
  The amended C4 on the freshly mounted screen with a full session: a freeze for 15 coins
  is refused, a hint for 10 is bought and pushed.
\<close>

theorem C4_purchase_guard_witness:
  "coins mount < 15 \<and> buyPowerUp session_full Freeze 15 mount = mount
   \<and> 10 \<le> coins mount
   \<and> coins (buyPowerUp session_full Hint 10 mount) = 0
   \<and> hint (powerUps (buyPowerUp session_full Hint 10 mount)) = 1
   \<and> trace (buyPowerUp session_full Hint 10 mount) =
        [HttpGetPuzzle Medium, HttpPatchPlayer [(''coins'', 0), (''hints'', 1)],
         Toast (PurchaseComplete Hint 10)]"
  using C4_purchase_guard [of mount 15 session_full Freeze]
        C4_purchase_guard [of mount 10 session_full Hint]
  by (simp add: mount_fields session_full_def)

section \<open>Answer submission\<close>


lemma resolved_correct:
  assumes "correct r"
  shows "score (handleSubmit_resolved st c r g)
           = score c + (if doublePointsActive c then 2 * or_num (points r) 10
                        else or_num (points r) 10)"
    and "coins (handleSubmit_resolved st c r g)
           = coins c + 5 + or_num (result_combo r) 0 div 2"
    and "streak (handleSubmit_resolved st c r g) = streak c + 1"
    and "combo (handleSubmit_resolved st c r g) = or_num (result_combo r) 0"
    and "doublePointsActive (handleSubmit_resolved st c r g)
           = (if doublePointsActive c then False else doublePointsActive g)"
    and "puzzle (handleSubmit_resolved st c r g) = puzzle g"
    and "userAnswer (handleSubmit_resolved st c r g) = userAnswer g"
  using assms
  by (simp_all add: handleSubmit_resolved_def updatePlayerData_def emit_def Let_def
        split: option.splits)

lemma resolved_incorrect:
  assumes "\<not> correct r"
  shows "handleSubmit_resolved st c r g =
           g\<lparr>streak := 0, combo := 0, showFailure := True,
             trace := trace g @
               [Toast (IncorrectNotice (or_str (correct_answer r) ''unknown'')),
                SetTimeout (FailureEnd (difficulty c)) 2000]\<rparr>"
  using assms by (simp add: handleSubmit_resolved_def emit_def Let_def)

lemma handleSubmit_started:
  assumes "puzzle g = Some p" and "userAnswer g \<noteq> []"
  shows "handleSubmit st now out g =
           handleSubmit_resolved st g (checkAnswer out)
             (emit (HttpCheckPuzzle (userAnswer g) (question p)
                      (if 0 < puzzleStartTime g then (now - puzzleStartTime g) div 1000
                       else 0)
                      (hintsUsedThisPuzzle g)) g)"
  using assms by (simp add: handleSubmit_def Let_def)

lemma checkAnswer_simps:
  "checkAnswer (Responded r) = r"
  "\<not> correct (checkAnswer NetworkError)"
  "correct_answer (checkAnswer NetworkError) = None"
  by (simp_all add: checkAnswer_def)

lemma answering_fields:
  "superBanana (powerUps answering) = 1"
  "puzzle answering = Some puzzle1"
  "userAnswer answering = ''5''"
  "score answering = 0"
  "coins answering = 40"
  "doublePointsActive answering = False"
  by code_simp+



lemma SubmitPressed_split:
  assumes "puzzle g = Some p" and "userAnswer g \<noteq> []"
  shows "handle st (SubmitPressed now out) g
           = handle st (VerdictArrived g out) (handle st (SubmitClicked now) g)"
  using assms by (simp add: handleSubmit_def handleSubmit_begin_def Let_def)

lemma check_pending_fields:
  "score check_pending = 0"
  "coins check_pending = 40"
  "doublePointsActive check_pending = False"
  "timeLeft check_pending = 38"
  "score armed_check_pending = 0"
  "doublePointsActive armed_check_pending = True"
  "doublePointsActive armed = True"
  "score armed = 0"
  by code_simp+

text \<open>
  What the handler does when the state has moved on between the click and the verdict:
  the continuation reads score, coins, streak and the armed flag from the render of the
  click. Two clicks on the armed screen are both doubled, and the second verdict
  overwrites the score of the first.
\<close>

lemma submit_twice_while_armed:
  "score (run session_full
            [SubmitClicked 3000, SubmitClicked 3500,
             VerdictArrived armed (Responded (verdict True (Some 12) (Some 1))),
             VerdictArrived (step session_full (SubmitClicked 3000) armed)
               (Responded (verdict True (Some 7) (Some 2)))] armed) = 14
   \<and> [e \<leftarrow> trace (run session_full
            [SubmitClicked 3000, SubmitClicked 3500,
             VerdictArrived armed (Responded (verdict True (Some 12) (Some 1))),
             VerdictArrived (step session_full (SubmitClicked 3000) armed)
               (Responded (verdict True (Some 7) (Some 2)))] armed).
          e = Toast DoublePointsApplied]
        = [Toast DoublePointsApplied, Toast DoublePointsApplied]"
  by code_simp



text \<open>
  C6, failed verification call: when the call to the verification endpoint fails, the
  submission resolves as an incorrect verdict does. Streak and combo are reset to 0, score
  and coins are unchanged, the state is the one an incorrect verdict without a correct
  answer gives (any incorrect verdict gives it up to the text of the notice), and the
  callback scheduled for 2000 ms later issues the next puzzle request, so the round goes on.
\<close>

theorem C6_network_failure_is_incorrect_verdict:
  assumes "puzzle g = Some p" and "userAnswer g \<noteq> []"
  shows "streak (handleSubmit st now NetworkError g) = 0
    \<and> combo (handleSubmit st now NetworkError g) = 0
    \<and> score (handleSubmit st now NetworkError g) = score g
    \<and> coins (handleSubmit st now NetworkError g) = coins g
    \<and> (\<forall>w. \<not> correct w \<and> correct_answer w = None \<longrightarrow>
          handleSubmit st now (Responded w) g = handleSubmit st now NetworkError g)
    \<and> (\<forall>w. \<not> correct w \<longrightarrow>
          (handleSubmit st now (Responded w) g)\<lparr>trace := []\<rparr>
            = (handleSubmit st now NetworkError g)\<lparr>trace := []\<rparr>)
    \<and> trace (handleSubmit st now NetworkError g) =
        trace g @
          [HttpCheckPuzzle (userAnswer g) (question p)
             (if 0 < puzzleStartTime g then (now - puzzleStartTime g) div 1000 else 0)
             (hintsUsedThisPuzzle g),
           Toast (IncorrectNotice ''unknown''),
           SetTimeout (FailureEnd (difficulty g)) 2000]
    \<and> trace (handle st (TimeoutFired (FailureEnd (difficulty g)))
               (handleSubmit st now NetworkError g)) =
        trace (handleSubmit st now NetworkError g) @
          HttpGetPuzzle (difficulty g) #
          (if truthy (st ''accessToken'') then [HttpGetGameStats] else [])"
  by (simp add: handleSubmit_started [OF assms] checkAnswer_simps resolved_incorrect emit_def
        failureEnd_def fetchGameStats_def fetchPuzzle_def)

lemma answering_again_fields:
  "puzzle answering_again = Some puzzle1"
  "userAnswer answering_again = ''7''"
  "streak answering_again = 1"
  "combo answering_again = 3"
  "score answering_again = 12"
  "coins answering_again = 46"
  by code_simp+

text \<open>C6 on the second puzzle, where streak and combo are not zero.\<close>

theorem C6_network_failure_is_incorrect_verdict_witness:
  "streak answering_again = 1 \<and> combo answering_again = 3
   \<and> streak (handleSubmit session_full 9000 NetworkError answering_again) = 0
   \<and> combo (handleSubmit session_full 9000 NetworkError answering_again) = 0
   \<and> score (handleSubmit session_full 9000 NetworkError answering_again) = 12
   \<and> coins (handleSubmit session_full 9000 NetworkError answering_again) = 46
   \<and> handleSubmit session_full 9000 (Responded (verdict False None None)) answering_again
        = handleSubmit session_full 9000 NetworkError answering_again"
  using C6_network_failure_is_incorrect_verdict [of answering_again puzzle1 session_full 9000]
  by (simp add: answering_again_fields verdict_def)

text \<open>
  C9 as stated fails twice. Where it says the score increases by the server-reported
  points on every correct verdict: with the double-points bonus armed, a verdict of 12
  points and combo 3 raises the score by 24 (the coins do increase by 6). And where it says
  the coin balance increases by exactly \<open>5 + floor (combo / 2)\<close> on every correct verdict:
  the continuation writes the balance of the click's render plus the reward, so after a
  hint bought for 10 coins while the check was pending the balance goes from 30 to 46.
\<close>

theorem C9_double_points_counterexample:
  "score armed = 0
   \<and> coins armed = 40
   \<and> score (step session_full
               (SubmitPressed 3000 (Responded (verdict True (Some 12) (Some 3)))) armed) = 24
   \<and> coins (step session_full
               (SubmitPressed 3000 (Responded (verdict True (Some 12) (Some 3)))) armed) = 46
   \<and> coins (run session_full [SubmitClicked 3000, BuyPressed Hint 10] answering) = 30
   \<and> coins (run session_full
               [SubmitClicked 3000, BuyPressed Hint 10,
                VerdictArrived answering (Responded (verdict True (Some 12) (Some 3)))]
               answering) = 46"
  by code_simp

text \<open>
  C9 (amended), coin reward formula: on every correct verdict that arrives while coins,
  score and the double-points flag are as they were when the answer was submitted, the
  coin balance increases by exactly \<open>5 + floor (combo / 2)\<close>, the combo being the one in the
  verdict and 0 when it is absent; with combo 3 that is 6. The score increases by the
  verdict's points (the server-reported points, or 10 when none or zero are reported),
  doubled when the double-points bonus is armed; so without the bonus and for non-zero
  reported points it increases by exactly the reported points. Other events (ticks,
  typing) may come between submission and verdict; what happens when coins, score or flag
  change in between is not part of the statement.
\<close>

theorem C9_correct_verdict_rewards:
  assumes "correct r" and "coins g = coins c" and "score g = score c"
    and "doublePointsActive g = doublePointsActive c"
  shows "coins (step st (VerdictArrived c (Responded r)) g)
           = coins g + (5 + or_num (result_combo r) 0 div 2)
    \<and> (result_combo r = Some 3 \<longrightarrow>
          coins (step st (VerdictArrived c (Responded r)) g) = coins g + 6)
    \<and> score (step st (VerdictArrived c (Responded r)) g)
        = score g + (if doublePointsActive g then 2 * or_num (points r) 10
                     else or_num (points r) 10)
    \<and> (\<not> doublePointsActive g \<and> points r = Some n \<and> n \<noteq> 0 \<longrightarrow>
          score (step st (VerdictArrived c (Responded r)) g) = score g + n)"
  using assms
  by (simp add: step_def rerender_keeps checkAnswer_simps resolved_correct)

text \<open>
  The amended C9 on the first puzzle, with two ticks between the click and the verdict:
  40 coins become 46, the score becomes 12.
\<close>

theorem C9_correct_verdict_rewards_witness:
  "coins check_pending = coins answering \<and> score check_pending = score answering
   \<and> doublePointsActive check_pending = doublePointsActive answering
   \<and> timeLeft check_pending = 38
   \<and> coins (step session_full
               (VerdictArrived answering (Responded (verdict True (Some 12) (Some 3))))
               check_pending) = 46
   \<and> score (step session_full
               (VerdictArrived answering (Responded (verdict True (Some 12) (Some 3))))
               check_pending) = 12"
  using C9_correct_verdict_rewards
          [of "verdict True (Some 12) (Some 3)" check_pending answering session_full 12]
  by (simp add: check_pending_fields answering_fields verdict_def)

section \<open>Logout\<close>

lemma cleared:
  "clearStoredSession st ''accessToken'' = None"
  "clearStoredSession st ''refreshToken'' = None"
  "clearStoredSession (clearStoredSession st) = clearStoredSession st"
  by (simp_all add: clearStoredSession_def fun_eq_iff)

lemma handleLogoutRequest_accepted:
  assumes "\<not> isLoggingOut (page a)"
  shows "handleLogoutRequest endpoint out a =
           \<lparr>localStorage = clearStoredSession (localStorage a),
            router = (router a)\<lparr>username := [], view := Landing\<rparr>,
            page = (page a)\<lparr>trace := trace (page a) @
                                 HttpLogout endpoint # logoutNotice endpoint out\<rparr>\<rparr>"
  using assms
  by (simp add: handleLogoutRequest_def handleLogout_def emit_def Let_def cleared)

text \<open>
  C7, logout teardown: for either endpoint, and whether the remote call resolves with
  success, resolves with failure or throws, a logout request (made while no logout is in
  flight, which is when the menu offers it) leaves no access and no refresh credential in
  storage and runs the router's logout callback: the view is landing and the session
  username is empty. Storage, router and game state after the request do not depend on the
  remote outcome; only the notice in the trace does.
\<close>

theorem C7_logout_teardown_unconditional:
  assumes "\<not> isLoggingOut (page a)"
  shows "localStorage (handleLogoutRequest endpoint out a) ''accessToken'' = None
    \<and> localStorage (handleLogoutRequest endpoint out a) ''refreshToken'' = None
    \<and> view (router (handleLogoutRequest endpoint out a)) = Landing
    \<and> username (router (handleLogoutRequest endpoint out a)) = []
    \<and> localStorage (handleLogoutRequest endpoint out a)
        = localStorage (handleLogoutRequest endpoint out' a)
    \<and> router (handleLogoutRequest endpoint out a)
        = router (handleLogoutRequest endpoint out' a)
    \<and> (page (handleLogoutRequest endpoint out a))\<lparr>trace := []\<rparr>
        = (page (handleLogoutRequest endpoint out' a))\<lparr>trace := []\<rparr>
    \<and> trace (page (handleLogoutRequest endpoint out a))
        = trace (page a) @ HttpLogout endpoint # logoutNotice endpoint out"
  by (simp add: handleLogoutRequest_accepted [OF assms] cleared)

lemma playing_app_fields:
  "isLoggingOut (page playing_app) = False"
  "view (router playing_app) = Playing"
  "username (router playing_app) = ''ann''"
  "localStorage playing_app ''accessToken'' = Some ''a1''"
  by code_simp+

text \<open>C7 on the running game: logout on all devices whose remote call throws.\<close>

theorem C7_logout_teardown_unconditional_witness:
  "\<not> isLoggingOut (page playing_app)
   \<and> view (router playing_app) = Playing
   \<and> localStorage playing_app ''accessToken'' = Some ''a1''
   \<and> localStorage (handleLogoutRequest LogoutAll Threw playing_app) ''accessToken'' = None
   \<and> localStorage (handleLogoutRequest LogoutAll Threw playing_app) ''refreshToken'' = None
   \<and> view (router (handleLogoutRequest LogoutAll Threw playing_app)) = Landing
   \<and> username (router (handleLogoutRequest LogoutAll Threw playing_app)) = []
   \<and> router (handleLogoutRequest LogoutAll Threw playing_app)
       = router (handleLogoutRequest LogoutAll (Resolved True None) playing_app)"
proof -
  have h: "\<not> isLoggingOut (page playing_app)"
    by (simp add: playing_app_fields)
  show ?thesis
    using h playing_app_fields(2,4)
      C7_logout_teardown_unconditional [OF h, of LogoutAll Threw "Resolved True None"]
    by blast
qed

section \<open>The freeze power-up\<close>

lemma useFreeze_fields:
  assumes "0 < freeze (powerUps g)" and "\<not> isTimerFrozen g"
  shows "freeze (powerUps (useFreeze st g)) = freeze (powerUps g) - 1"
    and "hint (powerUps (useFreeze st g)) = hint (powerUps g)"
    and "superBanana (powerUps (useFreeze st g)) = superBanana (powerUps g)"
    and "coins (useFreeze st g) = coins g"
    and "timeLeft (useFreeze st g) = timeLeft g"
    and "isTimerFrozen (useFreeze st g)"
    and "trace (useFreeze st g) =
           trace g @
             [if truthy (st ''accessToken'')
              then HttpPatchPlayer [(''freezes'', freeze (powerUps g) - 1)]
              else Toast SyncError,
              SetTimeout FreezeEnd 100, Toast TimeFrozen]"
  using assms by (simp_all add: useFreeze_def updatePlayerData_def emit_def Let_def)

lemma useFreeze_refused: "isTimerFrozen g \<Longrightarrow> useFreeze st g = g"
  by (simp add: useFreeze_def)

lemma answering_freeze:
  "freeze (powerUps answering) = 1"
  "isTimerFrozen answering = False"
  "timeLeft answering = 40"
  "coins answering = 40"
  "hint (powerUps answering) = 1"
  "superBanana (powerUps answering) = 1"
  by code_simp+

lemma frozen_fields:
  "isTimerFrozen (useFreeze session_full answering) = True"
  "freeze (powerUps (useFreeze session_full answering)) = 0"
  by code_simp+

text \<open>
  C8, freeze while frozen: invoking the freeze power-up while the timer is frozen changes
  nothing, neither through the handler nor after the render that follows (same state, same
  trace: no second decrement, no second callback, no sync). Invoked while not frozen and
  with a freeze in stock, it takes exactly 1 off the freeze counter, freezes the timer
  without touching the time, and schedules one callback, which adds the bonus once.
\<close>

theorem C8_freeze_not_stacked:
  "(isTimerFrozen g \<longrightarrow> useFreeze st g = g \<and> step st FreezePressed g = g)
   \<and> (\<not> isTimerFrozen g \<and> 0 < freeze (powerUps g) \<longrightarrow>
        freeze (powerUps (useFreeze st g)) = freeze (powerUps g) - 1
        \<and> isTimerFrozen (useFreeze st g)
        \<and> timeLeft (useFreeze st g) = timeLeft g
        \<and> trace (useFreeze st g) =
            trace g @
              [if truthy (st ''accessToken'')
               then HttpPatchPlayer [(''freezes'', freeze (powerUps g) - 1)]
               else Toast SyncError,
               SetTimeout FreezeEnd 100, Toast TimeFrozen]
        \<and> timeLeft (freezeEnd (useFreeze st g)) = timeLeft g + 20)"
proof (intro conjI impI)
  assume "isTimerFrozen g"
  then show "useFreeze st g = g" by (rule useFreeze_refused)
  then show "step st FreezePressed g = g" by (simp add: step_def rerender_cases)
next
  assume "\<not> isTimerFrozen g \<and> 0 < freeze (powerUps g)"
  then have ok: "0 < freeze (powerUps g)" "\<not> isTimerFrozen g" by simp_all
  show "timeLeft (freezeEnd (useFreeze st g)) = timeLeft g + 20"
    by (simp add: freezeEnd_def useFreeze_fields [OF ok])
qed (simp_all add: useFreeze_fields)

text \<open>C8 on the first puzzle: the first press is applied, a second press is refused.\<close>

theorem C8_freeze_not_stacked_witness:
  "\<not> isTimerFrozen answering \<and> 0 < freeze (powerUps answering)
   \<and> freeze (powerUps (useFreeze session_full answering)) = 0
   \<and> isTimerFrozen (useFreeze session_full answering)
   \<and> useFreeze session_full (useFreeze session_full answering)
       = useFreeze session_full answering
   \<and> timeLeft (freezeEnd (useFreeze session_full answering)) = 60"
  using C8_freeze_not_stacked [of answering session_full]
        C8_freeze_not_stacked [of "useFreeze session_full answering" session_full]
  by (simp add: answering_freeze frozen_fields)

text \<open>
  C10, freeze bonus magnitude: when the freeze power-up is applied (a freeze in stock, timer
  not frozen) the handler freezes the timer, leaves the time as it is, schedules its
  callback 100 ms later and raises the notice whose text says "+10 seconds added to
  timer!". The callback adds exactly 20 to whatever time is left when it fires; fired
  right after the press, it leaves exactly 20 more than before the press and the timer no
  longer frozen. Coins, hint count and super-banana count are unchanged; the freeze count
  is one less.
\<close>

theorem C10_freeze_adds_twenty_seconds:
  assumes "0 < freeze (powerUps g)" and "\<not> isTimerFrozen g"
  shows "isTimerFrozen (useFreeze st g)
    \<and> timeLeft (useFreeze st g) = timeLeft g
    \<and> trace (useFreeze st g) =
        trace g @
          [if truthy (st ''accessToken'')
           then HttpPatchPlayer [(''freezes'', freeze (powerUps g) - 1)]
           else Toast SyncError,
           SetTimeout FreezeEnd 100, Toast TimeFrozen]
    \<and> description TimeFrozen = Some ''+10 seconds added to timer!''
    \<and> (\<forall>h. timeLeft (handle st (TimeoutFired FreezeEnd) h) = timeLeft h + 20)
    \<and> timeLeft (run st [FreezePressed, TimeoutFired FreezeEnd] g) = timeLeft g + 20
    \<and> \<not> isTimerFrozen (run st [FreezePressed, TimeoutFired FreezeEnd] g)
    \<and> coins (run st [FreezePressed, TimeoutFired FreezeEnd] g) = coins g
    \<and> hint (powerUps (run st [FreezePressed, TimeoutFired FreezeEnd] g)) = hint (powerUps g)
    \<and> superBanana (powerUps (run st [FreezePressed, TimeoutFired FreezeEnd] g))
        = superBanana (powerUps g)
    \<and> freeze (powerUps (run st [FreezePressed, TimeoutFired FreezeEnd] g))
        = freeze (powerUps g) - 1"
proof -
  let ?a = "step st FreezePressed g"
  let ?b = "run st [FreezePressed, TimeoutFired FreezeEnd] g"
  note f = useFreeze_fields [OF assms]
  have a: "timeLeft ?a = timeLeft g" "coins ?a = coins g"
    "powerUps ?a = powerUps (useFreeze st g)"
    by (simp_all add: step_def rerender_keeps f)
  have b: "?b = rerender ?a (freezeEnd ?a)"
    by (simp add: step_def)
  have "\<not> isTimerFrozen (freezeEnd ?a)"
    by (simp add: freezeEnd_def)
  then have unfrozen: "\<not> isTimerFrozen ?b"
    unfolding b by (rule rerender_unfrozen)
  have time: "timeLeft ?b = timeLeft g + 20"
    unfolding b by (simp add: rerender_keeps freezeEnd_def a)
  have rest: "coins ?b = coins g" "powerUps ?b = powerUps (useFreeze st g)"
    unfolding b by (simp_all add: rerender_keeps freezeEnd_def a)
  show ?thesis
    using unfrozen time by (simp add: rest f freezeEnd_def del: run.simps)
qed

text \<open>C10 on the first puzzle: 40 seconds become 60, the economy is untouched.\<close>

theorem C10_freeze_adds_twenty_seconds_witness:
  "0 < freeze (powerUps answering) \<and> \<not> isTimerFrozen answering
   \<and> timeLeft answering = 40
   \<and> timeLeft (run session_full [FreezePressed, TimeoutFired FreezeEnd] answering) = 60
   \<and> coins (run session_full [FreezePressed, TimeoutFired FreezeEnd] answering) = 40
   \<and> hint (powerUps (run session_full [FreezePressed, TimeoutFired FreezeEnd] answering)) = 1
   \<and> superBanana
        (powerUps (run session_full [FreezePressed, TimeoutFired FreezeEnd] answering)) = 1"
  using C10_freeze_adds_twenty_seconds [of answering session_full]
  by (simp add: answering_freeze)

end
